theory Spec2Isabelle
  imports Main
begin

section \<open>Directory settings: the component of DirectorySettings.tsx\<close>

text \<open>
  The source is one React component, \<open>DirectorySettings\<close>, and its helper component
  \<open>DirectoryInput\<close>. A component is a pure function from its props to a tree of
  elements. The model keeps of that tree what decides behaviour: for every control its
  displayed value, its \<open>disabled\<close> attribute and the handler it carries. Labels,
  titles, placeholders and class names come from the translation function and the style
  sheet and are left out.

  The props of the source hold eight callbacks. A handler of the model does not run a
  callback; it returns which callback is invoked and with which arguments, as a value of
  the type \<open>callback\<close>.
\<close>

subsection \<open>Data\<close>

text \<open>
  \<open>AppId\<close> is imported from \<open>@/lib/api\<close>. The component uses the three literals
  \<open>"claude"\<close>, \<open>"codex"\<close> and \<open>"gemini"\<close> (lines 136, 148, 160).
\<close>

datatype AppId = Claude | Codex | Gemini

text \<open>
  \<open>ResolvedDirectories\<close> is imported from \<open>@/hooks/useSettings\<close>. The component reads
  the four properties \<open>appConfig\<close>, \<open>claude\<close>, \<open>codex\<close> and \<open>gemini\<close>, and guards
  each read with \<open>?? ""\<close>, so a property is modelled as a string that may be undefined
  (\<open>None\<close>).
\<close>

record ResolvedDirectories =
  appConfig :: "string option"
  claude :: "string option"
  codex :: "string option"
  gemini :: "string option"

text \<open>
  An invocation of one of the callback props of \<open>DirectorySettingsProps\<close> (lines 13-25),
  with its arguments. \<open>value?: string\<close> is a \<open>string option\<close>.
\<close>

datatype callback =
    OnAppConfigChange "string option"
  | OnBrowseAppConfig
  | OnResetAppConfig
  | OnEnableConfigDirOverridesChange bool
  | OnSyncProviderSwitchToBothConfigDirsChange bool
  | OnDirectoryChange AppId "string option"
  | OnBrowseDirectory AppId
  | OnResetDirectory AppId

text \<open>The data props of \<open>DirectorySettingsProps\<close> (lines 10-26).\<close>

record DirectorySettingsProps =
  appConfigDir :: "string option"
  resolvedDirs :: ResolvedDirectories
  enableConfigDirOverrides :: bool
  syncProviderSwitchToBothConfigDirs :: bool
  claudeDir :: "string option"
  codexDir :: "string option"
  geminiDir :: "string option"

text \<open>
  \<open>DirectoryInputProps\<close> (lines 169-179). \<open>valueProp\<close> is the prop \<open>value\<close>,
  \<open>disabledProp\<close> the optional prop \<open>disabled\<close>; the three handlers are given as the
  callback invocation they stand for.
\<close>

record DirectoryInputProps =
  valueProp :: "string option"
  resolvedValue :: "string option"
  disabledProp :: "bool option"
  onChange :: "string option \<Rightarrow> callback"
  onBrowse :: callback
  onReset :: callback

text \<open>
  The elements the component renders: \<open>Input\<close>, \<open>Button\<close> and \<open>Switch\<close>. An
  attribute the source does not pass is \<open>None\<close>.
\<close>

record InputElem =
  inputValue :: string
  inputDisabled :: "bool option"
  inputOnChange :: "string \<Rightarrow> callback"

record ButtonElem =
  buttonDisabled :: "bool option"
  buttonOnClick :: callback

record SwitchElem =
  switchChecked :: bool
  switchDisabled :: "bool option"
  switchOnCheckedChange :: "bool \<Rightarrow> callback"

record DirectoryInputView =
  dirInput :: InputElem
  dirBrowseButton :: ButtonElem
  dirResetButton :: ButtonElem

record DirectorySettingsView =
  appConfigInput :: InputElem
  appConfigBrowseButton :: ButtonElem
  appConfigResetButton :: ButtonElem
  enableOverridesSwitch :: SwitchElem
  syncSwitch :: SwitchElem
  claudeInput :: DirectoryInputView
  codexInput :: DirectoryInputView
  geminiInput :: DirectoryInputView

subsection \<open>The components\<close>

text \<open>
  The operator \<open>??\<close> of the source: the left operand unless it is undefined. The first
  form has a right operand that may be undefined itself, the second a right operand that
  is a value.
\<close>

fun nullishOpt :: "'a option \<Rightarrow> 'a option \<Rightarrow> 'a option" where
  "nullishOpt (Some x) y = Some x"
| "nullishOpt None y = y"

fun nullish :: "'a option \<Rightarrow> 'a \<Rightarrow> 'a" where
  "nullish (Some x) d = x"
| "nullish None d = d"

text \<open>
  Lines 193-196: \<open>value ?? resolvedValue ?? ""\<close>. \<open>??\<close> associates to the left.
  \<open>useMemo\<close> only caches the result.
\<close>

definition displayValue :: "string option \<Rightarrow> string option \<Rightarrow> string" where
  "displayValue v r = nullish (nullishOpt v r) []"

text \<open>Lines 181-237: the input and its two buttons share the prop \<open>disabled\<close>.\<close>

definition DirectoryInput :: "DirectoryInputProps \<Rightarrow> DirectoryInputView" where
  "DirectoryInput p =
     \<lparr> dirInput =
         \<lparr> inputValue = displayValue (valueProp p) (resolvedValue p),
           inputDisabled = disabledProp p,
           inputOnChange = (\<lambda>targetValue. onChange p (Some targetValue)) \<rparr>,
       dirBrowseButton =
         \<lparr> buttonDisabled = disabledProp p, buttonOnClick = onBrowse p \<rparr>,
       dirResetButton =
         \<lparr> buttonDisabled = disabledProp p, buttonOnClick = onReset p \<rparr> \<rparr>"

text \<open>Lines 28-167.\<close>

definition DirectorySettings :: "DirectorySettingsProps \<Rightarrow> DirectorySettingsView" where
  "DirectorySettings p =
     \<lparr> appConfigInput =
         \<lparr> inputValue = nullish (nullishOpt (appConfigDir p) (appConfig (resolvedDirs p))) [],
           inputDisabled = None,
           inputOnChange = (\<lambda>targetValue. OnAppConfigChange (Some targetValue)) \<rparr>,
       appConfigBrowseButton =
         \<lparr> buttonDisabled = None, buttonOnClick = OnBrowseAppConfig \<rparr>,
       appConfigResetButton =
         \<lparr> buttonDisabled = None, buttonOnClick = OnResetAppConfig \<rparr>,
       enableOverridesSwitch =
         \<lparr> switchChecked = enableConfigDirOverrides p,
           switchDisabled = None,
           switchOnCheckedChange = OnEnableConfigDirOverridesChange \<rparr>,
       syncSwitch =
         \<lparr> switchChecked = syncProviderSwitchToBothConfigDirs p,
           switchDisabled = None,
           switchOnCheckedChange = OnSyncProviderSwitchToBothConfigDirsChange \<rparr>,
       claudeInput = DirectoryInput
         \<lparr> valueProp = claudeDir p,
           resolvedValue = claude (resolvedDirs p),
           disabledProp = Some (\<not> enableConfigDirOverrides p),
           onChange = (\<lambda>val. OnDirectoryChange Claude val),
           onBrowse = OnBrowseDirectory Claude,
           onReset = OnResetDirectory Claude \<rparr>,
       codexInput = DirectoryInput
         \<lparr> valueProp = codexDir p,
           resolvedValue = codex (resolvedDirs p),
           disabledProp = Some (\<not> enableConfigDirOverrides p),
           onChange = (\<lambda>val. OnDirectoryChange Codex val),
           onBrowse = OnBrowseDirectory Codex,
           onReset = OnResetDirectory Codex \<rparr>,
       geminiInput = DirectoryInput
         \<lparr> valueProp = geminiDir p,
           resolvedValue = gemini (resolvedDirs p),
           disabledProp = Some (\<not> enableConfigDirOverrides p),
           onChange = (\<lambda>val. OnDirectoryChange Gemini val),
           onBrowse = OnBrowseDirectory Gemini,
           onReset = OnResetDirectory Gemini \<rparr> \<rparr>"

text \<open>The props and the rendered block of one app.\<close>

fun overrideOf :: "AppId \<Rightarrow> DirectorySettingsProps \<Rightarrow> string option" where
  "overrideOf Claude p = claudeDir p"
| "overrideOf Codex p = codexDir p"
| "overrideOf Gemini p = geminiDir p"

fun resolvedOf :: "AppId \<Rightarrow> ResolvedDirectories \<Rightarrow> string option" where
  "resolvedOf Claude r = claude r"
| "resolvedOf Codex r = codex r"
| "resolvedOf Gemini r = gemini r"

fun directoryInputOf :: "AppId \<Rightarrow> DirectorySettingsView \<Rightarrow> DirectoryInputView" where
  "directoryInputOf Claude v = claudeInput v"
| "directoryInputOf Codex v = codexInput v"
| "directoryInputOf Gemini v = geminiInput v"

subsection \<open>User interaction\<close>

text \<open>
  Modelled from the spec: the components \<open>Input\<close>, \<open>Button\<close> and \<open>Switch\<close> of
  \<open>@/components/ui\<close> are not among the sources. The spec (4.2) calls a per-app input
  either active (editable) or inert (disabled), and has edits accepted only in the first
  case: a control whose \<open>disabled\<close> attribute is true takes no user input and runs no
  handler; any other control runs its handler once, with the text typed or the position
  chosen. An attribute that is not passed counts as false.
\<close>

fun isDisabled :: "bool option \<Rightarrow> bool" where
  "isDisabled (Some b) = b"
| "isDisabled None = False"

text \<open>
  Modelled from the spec: \<open>Input\<close> of \<open>@/components/ui/input\<close>, not among the
  sources. An edit of an input that accepts edits runs \<open>onChange\<close> with the new text.
\<close>

definition changeInput :: "InputElem \<Rightarrow> string \<Rightarrow> callback list" where
  "changeInput el targetValue =
     (if isDisabled (inputDisabled el) then [] else [inputOnChange el targetValue])"

text \<open>
  Modelled from the spec: \<open>Button\<close> of \<open>@/components/ui/button\<close>, not among the
  sources. Activating a button that is not disabled runs \<open>onClick\<close>.
\<close>

definition clickButton :: "ButtonElem \<Rightarrow> callback list" where
  "clickButton el = (if isDisabled (buttonDisabled el) then [] else [buttonOnClick el])"

text \<open>
  Modelled from the spec: \<open>Switch\<close> of \<open>@/components/ui/switch\<close>, not among the
  sources. Flipping a switch that is not disabled runs \<open>onCheckedChange\<close> with the new
  position.
\<close>

definition toggleSwitch :: "SwitchElem \<Rightarrow> bool \<Rightarrow> callback list" where
  "toggleSwitch el checked =
     (if isDisabled (switchDisabled el) then [] else [switchOnCheckedChange el checked])"

text \<open>
  Modelled from the spec: the user events of section 5 (text input, toggle flip, button
  activation), processed one at a time; the event loop is not among the sources. An
  event names the control of the rendered component it goes to, and \<open>dispatch\<close>
  gives the callbacks the component invokes in answer. \<open>EditAppConfig s\<close> and
  \<open>EditDirectory app s\<close> leave the input holding the text \<open>s\<close>; clearing the field
  is the edit to the empty string.
\<close>

datatype UserEvent =
    EditAppConfig string
  | ClickBrowseAppConfig
  | ClickResetAppConfig
  | ToggleEnableOverrides bool
  | ToggleSync bool
  | EditDirectory AppId string
  | ClickBrowseDirectory AppId
  | ClickResetDirectory AppId

text \<open>
  Modelled from the spec: an event goes to the element the component rendered for its
  control and is answered by that element alone.
\<close>

fun dispatch :: "DirectorySettingsView \<Rightarrow> UserEvent \<Rightarrow> callback list" where
  "dispatch v (EditAppConfig s) = changeInput (appConfigInput v) s"
| "dispatch v ClickBrowseAppConfig = clickButton (appConfigBrowseButton v)"
| "dispatch v ClickResetAppConfig = clickButton (appConfigResetButton v)"
| "dispatch v (ToggleEnableOverrides b) = toggleSwitch (enableOverridesSwitch v) b"
| "dispatch v (ToggleSync b) = toggleSwitch (syncSwitch v) b"
| "dispatch v (EditDirectory app s) = changeInput (dirInput (directoryInputOf app v)) s"
| "dispatch v (ClickBrowseDirectory app) =
     clickButton (dirBrowseButton (directoryInputOf app v))"
| "dispatch v (ClickResetDirectory app) =
     clickButton (dirResetButton (directoryInputOf app v))"

text \<open>The callbacks that can change or replace the override of a managed app.\<close>

fun perAppCallback :: "callback \<Rightarrow> bool" where
  "perAppCallback (OnDirectoryChange app val) = True"
| "perAppCallback (OnBrowseDirectory app) = True"
| "perAppCallback (OnResetDirectory app) = True"
| "perAppCallback cb = False"

text \<open>A change callback that hands over no string (the absent override).\<close>

fun changeToAbsent :: "callback \<Rightarrow> bool" where
  "changeToAbsent (OnAppConfigChange None) = True"
| "changeToAbsent (OnDirectoryChange app None) = True"
| "changeToAbsent cb = False"

subsection \<open>The settings state behind the component\<close>

text \<open>
  Modelled from the spec: the owner of the settings (the hook of \<open>@/hooks/useSettings\<close>
  and the page that renders \<open>DirectorySettings\<close>) is not among the sources. Section 3
  of the spec gives the state: an optional override of the host application's directory,
  one optional override for each app (never partial, so a total function), the gate
  \<open>overridesEnabled\<close> and the flag \<open>syncToBothConfigDirs\<close>.
\<close>

record DirectorySettingsState =
  appConfigOverride :: "string option"
  perAppOverride :: "AppId \<Rightarrow> string option"
  overridesEnabled :: bool
  syncToBothConfigDirs :: bool

text \<open>
  The mutation contract of section 4.4 of the spec, whose code is not among the sources.
  Every operation replaces one field; the two resets are the setters at the absent value.
\<close>

text \<open>Modelled from the spec: \<open>setAppConfigOverride\<close> replaces \<open>appConfigOverride\<close>
  unconditionally.\<close>

definition setAppConfigOverride ::
  "string option \<Rightarrow> DirectorySettingsState \<Rightarrow> DirectorySettingsState" where
  "setAppConfigOverride v s = s\<lparr>appConfigOverride := v\<rparr>"

text \<open>Modelled from the spec: \<open>setPerAppOverride\<close> replaces the entry of \<open>app\<close>; any
  string is accepted, the empty one included.\<close>

definition setPerAppOverride ::
  "AppId \<Rightarrow> string option \<Rightarrow> DirectorySettingsState \<Rightarrow> DirectorySettingsState" where
  "setPerAppOverride app v s = s\<lparr>perAppOverride := (perAppOverride s)(app := v)\<rparr>"

text \<open>Modelled from the spec: \<open>setOverridesEnabled\<close> replaces the gate, with no
  cascading mutation.\<close>

definition setOverridesEnabled ::
  "bool \<Rightarrow> DirectorySettingsState \<Rightarrow> DirectorySettingsState" where
  "setOverridesEnabled enabled s = s\<lparr>overridesEnabled := enabled\<rparr>"

text \<open>Modelled from the spec: \<open>setSyncToBothConfigDirs\<close> replaces the flag.\<close>

definition setSyncToBothConfigDirs ::
  "bool \<Rightarrow> DirectorySettingsState \<Rightarrow> DirectorySettingsState" where
  "setSyncToBothConfigDirs enabled s = s\<lparr>syncToBothConfigDirs := enabled\<rparr>"

text \<open>Modelled from the spec: \<open>resetAppConfigOverride\<close> is
  \<open>setAppConfigOverride\<close> at the absent value.\<close>

definition resetAppConfigOverride :: "DirectorySettingsState \<Rightarrow> DirectorySettingsState" where
  "resetAppConfigOverride s = setAppConfigOverride None s"

text \<open>Modelled from the spec: \<open>resetPerAppOverride\<close> is \<open>setPerAppOverride\<close> of the
  app at the absent value.\<close>

definition resetPerAppOverride ::
  "AppId \<Rightarrow> DirectorySettingsState \<Rightarrow> DirectorySettingsState" where
  "resetPerAppOverride app s = setPerAppOverride app None s"

text \<open>
  Modelled from the spec: the props the owner of the state passes to the component
  (section 2, data flow: the state is rendered through the resolver). Each stored
  override is passed as it is stored, the resolved directories come from the external
  provider.
\<close>

definition propsOf :: "ResolvedDirectories \<Rightarrow> DirectorySettingsState \<Rightarrow> DirectorySettingsProps" where
  "propsOf rd s =
     \<lparr> appConfigDir = appConfigOverride s,
       resolvedDirs = rd,
       enableConfigDirOverrides = overridesEnabled s,
       syncProviderSwitchToBothConfigDirs = syncToBothConfigDirs s,
       claudeDir = perAppOverride s Claude,
       codexDir = perAppOverride s Codex,
       geminiDir = perAppOverride s Gemini \<rparr>"

text \<open>
  Modelled from the spec: the error of section 7 for a native dialog that failed to open,
  with its diagnostic text. The dialog is not among the sources.
\<close>

datatype BrowseError = BrowseError string

text \<open>
  Modelled from the spec: the dispatcher of section 4.5 and section 7, whose code is not
  among the sources. A browse ends with an error (\<open>Inl\<close>), with a cancelled dialog
  (\<open>Inr None\<close>) or with a chosen path. Only a chosen path is folded into the state,
  through the setter of the directory browsed; the host application's own directory is
  the target \<open>None\<close>.
\<close>

fun completeBrowse ::
  "AppId option \<Rightarrow> BrowseError + string option \<Rightarrow> DirectorySettingsState \<Rightarrow> DirectorySettingsState" where
  "completeBrowse target (Inl err) s = s"
| "completeBrowse target (Inr None) s = s"
| "completeBrowse None (Inr (Some path)) s = setAppConfigOverride (Some path) s"
| "completeBrowse (Some app) (Inr (Some path)) s = setPerAppOverride app (Some path) s"

text \<open>
  Modelled from the spec: a target of a provider switch (section 4.3) is the primary app
  or a companion directory of an external collaborator. Its declaration is not among
  the sources.
\<close>

datatype DirectoryTarget = PrimaryTarget AppId | CompanionTarget string

text \<open>
  Modelled from the spec: the fan-out policy of section 4.3, whose code is not among the
  sources. Which directory is the companion of an app is external configuration
  (section 9), the parameter \<open>companion\<close>.
\<close>

definition targetsFor :: "(AppId \<Rightarrow> string) \<Rightarrow> bool \<Rightarrow> AppId \<Rightarrow> DirectoryTarget set" where
  "targetsFor companion syncEnabled primaryApp =
     (if syncEnabled then {PrimaryTarget primaryApp, CompanionTarget (companion primaryApp)}
      else {PrimaryTarget primaryApp})"

subsection \<open>Example inputs\<close>

text \<open>
  The scenario of section 8 of the spec: the gate is off and the override
  \<open>/custom/claude\<close> is stored for claude.
\<close>

definition exampleResolved :: ResolvedDirectories where
  "exampleResolved =
     \<lparr> appConfig = Some ''/home/u/.cc-switch'',
       claude = Some ''/home/u/.claude'',
       codex = Some ''/home/u/.codex'',
       gemini = Some ''/home/u/.gemini'' \<rparr>"

definition gateOffProps :: DirectorySettingsProps where
  "gateOffProps =
     \<lparr> appConfigDir = None,
       resolvedDirs = exampleResolved,
       enableConfigDirOverrides = False,
       syncProviderSwitchToBothConfigDirs = False,
       claudeDir = Some ''/custom/claude'',
       codexDir = None,
       geminiDir = None \<rparr>"

section \<open>Theorems\<close>

subsection \<open>Rendering, read off the definitions\<close>

lemma DirectoryInput_simps:
  "inputValue (dirInput (DirectoryInput q)) = displayValue (valueProp q) (resolvedValue q)"
  "inputDisabled (dirInput (DirectoryInput q)) = disabledProp q"
  "inputOnChange (dirInput (DirectoryInput q)) s = onChange q (Some s)"
  "buttonDisabled (dirBrowseButton (DirectoryInput q)) = disabledProp q"
  "buttonOnClick (dirBrowseButton (DirectoryInput q)) = onBrowse q"
  "buttonDisabled (dirResetButton (DirectoryInput q)) = disabledProp q"
  "buttonOnClick (dirResetButton (DirectoryInput q)) = onReset q"
  by (simp_all add: DirectoryInput_def)

lemma directoryInput_value:
  "inputValue (dirInput (directoryInputOf app (DirectorySettings p))) =
     displayValue (overrideOf app p) (resolvedOf app (resolvedDirs p))"
  by (cases app) (simp_all add: DirectorySettings_def DirectoryInput_simps)

lemma directoryInput_disabled:
  "inputDisabled (dirInput (directoryInputOf app (DirectorySettings p))) =
     Some (\<not> enableConfigDirOverrides p)"
  "buttonDisabled (dirBrowseButton (directoryInputOf app (DirectorySettings p))) =
     Some (\<not> enableConfigDirOverrides p)"
  "buttonDisabled (dirResetButton (directoryInputOf app (DirectorySettings p))) =
     Some (\<not> enableConfigDirOverrides p)"
  by (cases app; simp add: DirectorySettings_def DirectoryInput_simps)+

lemma directoryInput_handlers:
  "inputOnChange (dirInput (directoryInputOf app (DirectorySettings p))) s =
     OnDirectoryChange app (Some s)"
  "buttonOnClick (dirBrowseButton (directoryInputOf app (DirectorySettings p))) =
     OnBrowseDirectory app"
  "buttonOnClick (dirResetButton (directoryInputOf app (DirectorySettings p))) =
     OnResetDirectory app"
  by (cases app; simp add: DirectorySettings_def DirectoryInput_simps)+

lemma dispatch_DirectorySettings:
  "dispatch (DirectorySettings p) (EditAppConfig s) = [OnAppConfigChange (Some s)]"
  "dispatch (DirectorySettings p) ClickBrowseAppConfig = [OnBrowseAppConfig]"
  "dispatch (DirectorySettings p) ClickResetAppConfig = [OnResetAppConfig]"
  "dispatch (DirectorySettings p) (ToggleEnableOverrides b) =
     [OnEnableConfigDirOverridesChange b]"
  "dispatch (DirectorySettings p) (ToggleSync b) =
     [OnSyncProviderSwitchToBothConfigDirsChange b]"
  "dispatch (DirectorySettings p) (EditDirectory app s) =
     (if enableConfigDirOverrides p then [OnDirectoryChange app (Some s)] else [])"
  "dispatch (DirectorySettings p) (ClickBrowseDirectory app) =
     (if enableConfigDirOverrides p then [OnBrowseDirectory app] else [])"
  "dispatch (DirectorySettings p) (ClickResetDirectory app) =
     (if enableConfigDirOverrides p then [OnResetDirectory app] else [])"
proof -
  show "dispatch (DirectorySettings p) (EditAppConfig s) = [OnAppConfigChange (Some s)]"
    and "dispatch (DirectorySettings p) ClickBrowseAppConfig = [OnBrowseAppConfig]"
    and "dispatch (DirectorySettings p) ClickResetAppConfig = [OnResetAppConfig]"
    and "dispatch (DirectorySettings p) (ToggleEnableOverrides b) =
      [OnEnableConfigDirOverridesChange b]"
    and "dispatch (DirectorySettings p) (ToggleSync b) =
      [OnSyncProviderSwitchToBothConfigDirsChange b]"
    by (simp_all add: DirectorySettings_def changeInput_def clickButton_def toggleSwitch_def)
  show "dispatch (DirectorySettings p) (EditDirectory app s) =
     (if enableConfigDirOverrides p then [OnDirectoryChange app (Some s)] else [])"
    by (simp add: changeInput_def directoryInput_disabled directoryInput_handlers)
  show "dispatch (DirectorySettings p) (ClickBrowseDirectory app) =
     (if enableConfigDirOverrides p then [OnBrowseDirectory app] else [])"
    by (simp add: clickButton_def directoryInput_disabled directoryInput_handlers)
  show "dispatch (DirectorySettings p) (ClickResetDirectory app) =
     (if enableConfigDirOverrides p then [OnResetDirectory app] else [])"
    by (simp add: clickButton_def directoryInput_disabled directoryInput_handlers)
qed

subsection \<open>The claims\<close>

text \<open>
  C1. The effective path is the override, verbatim, whenever the override is present,
  the empty string included, and the resolved default when the override is absent. This
  holds of \<open>displayValue\<close> of \<open>DirectoryInput\<close> for every override and every resolved
  default, and of the value of the input of the host application's own directory
  (line 60).
\<close>

theorem effective_path_override_else_default:
  "displayValue (Some ov) r = ov
   \<and> displayValue (Some []) r = []
   \<and> displayValue None (Some d) = d
   \<and> inputValue (appConfigInput (DirectorySettings (p\<lparr>appConfigDir := Some ov\<rparr>))) = ov
   \<and> inputValue (appConfigInput (DirectorySettings
        (p\<lparr>appConfigDir := None, resolvedDirs := rd\<lparr>appConfig := Some d\<rparr>\<rparr>))) = d"
  by (simp add: displayValue_def DirectorySettings_def)

text \<open>
  C2, as the code has it. The value a per-app input displays does not depend on
  \<open>enableConfigDirOverrides\<close>: it is the override the component receives for the app
  when one is present, and the resolved default only when the override is absent.
  With the switch off the input is disabled and still displays the override.
\<close>

theorem per_app_display_ignores_enable:
  "inputValue (dirInput (directoryInputOf app (DirectorySettings p))) =
     (case overrideOf app p of
        Some ov \<Rightarrow> ov
      | None \<Rightarrow> nullish (resolvedOf app (resolvedDirs p)) [])
   \<and> inputValue (dirInput (directoryInputOf app
         (DirectorySettings (p\<lparr>enableConfigDirOverrides := False\<rparr>)))) =
       inputValue (dirInput (directoryInputOf app
         (DirectorySettings (p\<lparr>enableConfigDirOverrides := True\<rparr>))))
   \<and> isDisabled (inputDisabled (dirInput (directoryInputOf app
         (DirectorySettings (p\<lparr>enableConfigDirOverrides := False\<rparr>)))))"
proof -
  have ov: "overrideOf app (p\<lparr>enableConfigDirOverrides := b\<rparr>) = overrideOf app p" for b
    by (cases app) simp_all
  show ?thesis
    by (simp add: directoryInput_value directoryInput_disabled displayValue_def ov
        split: option.split)
qed

text \<open>
  C2, as the spec states it, fails: with the switch off, the override
  \<open>/custom/claude\<close> stored for claude and the resolved default \<open>/home/u/.claude\<close>,
  the input displays \<open>/custom/claude\<close>.
\<close>

theorem gate_off_displays_stored_override:
  "enableConfigDirOverrides gateOffProps = False
   \<and> overrideOf Claude gateOffProps = Some ''/custom/claude''
   \<and> resolvedOf Claude (resolvedDirs gateOffProps) = Some ''/home/u/.claude''
   \<and> inputValue (dirInput (directoryInputOf Claude (DirectorySettings gateOffProps))) =
       ''/custom/claude''
   \<and> inputValue (dirInput (directoryInputOf Claude (DirectorySettings gateOffProps))) \<noteq>
       ''/home/u/.claude''"
  unfolding directoryInput_value
  by (simp add: displayValue_def gateOffProps_def exampleResolved_def)

text \<open>
  C3. For every value of \<open>enableConfigDirOverrides\<close> and every app, the override input
  is editable (not disabled) exactly when the switch is on, and an edit of it reaches
  \<open>onDirectoryChange\<close> exactly then; with the switch off the edit invokes nothing.
\<close>

theorem override_editable_iff_enabled:
  "(\<not> isDisabled (inputDisabled (dirInput (directoryInputOf app (DirectorySettings p))))) =
     enableConfigDirOverrides p
   \<and> (dispatch (DirectorySettings p) (EditDirectory app s) = [OnDirectoryChange app (Some s)]) =
     enableConfigDirOverrides p
   \<and> (dispatch (DirectorySettings p) (EditDirectory app s) = []) =
     (\<not> enableConfigDirOverrides p)"
  by (simp add: directoryInput_disabled dispatch_DirectorySettings del: dispatch.simps)

text \<open>
  C4. Setting \<open>overridesEnabled\<close>, in either direction, changes no other field of the
  state, and toggling it off, on and off again leaves every per-app override and the
  override of the host application's directory as they were. In the component the switch
  invokes \<open>onEnableConfigDirOverridesChange\<close> with the new position and nothing else.
\<close>

theorem setOverridesEnabled_frame:
  "perAppOverride (setOverridesEnabled e s) = perAppOverride s
   \<and> appConfigOverride (setOverridesEnabled e s) = appConfigOverride s
   \<and> syncToBothConfigDirs (setOverridesEnabled e s) = syncToBothConfigDirs s
   \<and> overridesEnabled (setOverridesEnabled e s) = e
   \<and> perAppOverride (setOverridesEnabled False (setOverridesEnabled True
        (setOverridesEnabled False s))) = perAppOverride s
   \<and> appConfigOverride (setOverridesEnabled False (setOverridesEnabled True
        (setOverridesEnabled False s))) = appConfigOverride s
   \<and> setOverridesEnabled False (setOverridesEnabled True (setOverridesEnabled False s)) =
       setOverridesEnabled False s
   \<and> dispatch (DirectorySettings p) (ToggleEnableOverrides e) =
       [OnEnableConfigDirOverridesChange e]"
  by (simp add: setOverridesEnabled_def dispatch_DirectorySettings del: dispatch.simps)

text \<open>
  C5. Without sync the targets of a provider switch are the primary app alone; with sync
  they are the primary app and its companion directory, two targets.
\<close>

theorem targetsFor_fan_out:
  "targetsFor companion False primaryApp = {PrimaryTarget primaryApp}
   \<and> targetsFor companion True primaryApp =
       {PrimaryTarget primaryApp, CompanionTarget (companion primaryApp)}
   \<and> card (targetsFor companion False primaryApp) = 1
   \<and> card (targetsFor companion True primaryApp) = 2"
  by (simp add: targetsFor_def)

text \<open>
  C6. A browse that ends cancelled or with a \<open>BrowseError\<close> leaves the whole state, and
  so the override of the directory browsed, as it was before the call; this holds for
  every app and for the host application's own directory.
\<close>

theorem completeBrowse_cancel_or_error_unchanged:
  "completeBrowse target (Inr None) s = s
   \<and> completeBrowse target (Inl err) s = s
   \<and> perAppOverride (completeBrowse (Some app) (Inr None) s) app = perAppOverride s app
   \<and> perAppOverride (completeBrowse (Some app) (Inl err) s) app = perAppOverride s app"
  by simp

text \<open>
  C7. After \<open>resetPerAppOverride app\<close> the effective path of the app is its resolved
  default, whatever the override was before: for \<open>displayValue\<close> at the stored
  override, and for the value the component displays when it renders the state.
\<close>

theorem reset_then_effective_path_is_default:
  "perAppOverride (resetPerAppOverride app s) app = None
   \<and> displayValue (perAppOverride (resetPerAppOverride app s) app) (Some d) = d
   \<and> displayValue (perAppOverride
        (resetPerAppOverride app (setPerAppOverride app prior s)) app) (Some d) = d
   \<and> inputValue (dirInput (directoryInputOf app
        (DirectorySettings (propsOf rd (resetPerAppOverride app s))))) =
       nullish (resolvedOf app rd) []"
proof -
  have ov: "overrideOf app (propsOf rd t) = perAppOverride t app" for t
    by (cases app) (simp_all add: propsOf_def)
  have rs: "resolvedDirs (propsOf rd t) = rd" for t
    by (simp add: propsOf_def)
  have none: "perAppOverride (resetPerAppOverride app t) app = None" for t
    by (simp add: resetPerAppOverride_def setPerAppOverride_def)
  show ?thesis
    by (simp add: none directoryInput_value ov rs displayValue_def)
qed

text \<open>
  C8. The input of the host application's own directory and its browse and reset
  buttons are enabled for every value of \<open>enableConfigDirOverrides\<close>, and so are the
  two switches; the input and the two buttons of each app are disabled exactly when the
  switch is off.
\<close>

theorem appConfig_controls_not_gated:
  "\<not> isDisabled (inputDisabled (appConfigInput (DirectorySettings p)))
   \<and> \<not> isDisabled (buttonDisabled (appConfigBrowseButton (DirectorySettings p)))
   \<and> \<not> isDisabled (buttonDisabled (appConfigResetButton (DirectorySettings p)))
   \<and> \<not> isDisabled (switchDisabled (enableOverridesSwitch (DirectorySettings p)))
   \<and> \<not> isDisabled (switchDisabled (syncSwitch (DirectorySettings p)))
   \<and> dispatch (DirectorySettings p) (EditAppConfig s) = [OnAppConfigChange (Some s)]
   \<and> dispatch (DirectorySettings p) ClickBrowseAppConfig = [OnBrowseAppConfig]
   \<and> dispatch (DirectorySettings p) ClickResetAppConfig = [OnResetAppConfig]
   \<and> isDisabled (inputDisabled (dirInput (directoryInputOf app (DirectorySettings p)))) =
       (\<not> enableConfigDirOverrides p)
   \<and> isDisabled (buttonDisabled (dirBrowseButton (directoryInputOf app (DirectorySettings p)))) =
       (\<not> enableConfigDirOverrides p)
   \<and> isDisabled (buttonDisabled (dirResetButton (directoryInputOf app (DirectorySettings p)))) =
       (\<not> enableConfigDirOverrides p)"
proof -
  have "\<not> isDisabled (inputDisabled (appConfigInput (DirectorySettings p)))"
    and "\<not> isDisabled (buttonDisabled (appConfigBrowseButton (DirectorySettings p)))"
    and "\<not> isDisabled (buttonDisabled (appConfigResetButton (DirectorySettings p)))"
    and "\<not> isDisabled (switchDisabled (enableOverridesSwitch (DirectorySettings p)))"
    and "\<not> isDisabled (switchDisabled (syncSwitch (DirectorySettings p)))"
    by (simp_all add: DirectorySettings_def)
  then show ?thesis
    by (simp add: directoryInput_disabled dispatch_DirectorySettings del: dispatch.simps)
qed

text \<open>
  C9. While \<open>enableConfigDirOverrides\<close> is false, the text input, the browse button and
  the reset button of every app are disabled, and no user event makes the component
  invoke \<open>onDirectoryChange\<close>, \<open>onBrowseDirectory\<close> or \<open>onResetDirectory\<close>.
\<close>

theorem gate_off_no_per_app_callback:
  assumes "\<not> enableConfigDirOverrides p"
  shows "isDisabled (inputDisabled (dirInput (directoryInputOf app (DirectorySettings p))))
   \<and> isDisabled (buttonDisabled (dirBrowseButton (directoryInputOf app (DirectorySettings p))))
   \<and> isDisabled (buttonDisabled (dirResetButton (directoryInputOf app (DirectorySettings p))))
   \<and> filter perAppCallback (dispatch (DirectorySettings p) ev) = []"
proof -
  have "filter perAppCallback (dispatch (DirectorySettings p) ev) = []"
    using assms by (cases ev) (simp_all add: dispatch_DirectorySettings del: dispatch.simps)
  with assms show ?thesis
    by (simp add: directoryInput_disabled)
qed

theorem gate_off_no_per_app_callback_witness:
  "\<not> enableConfigDirOverrides gateOffProps
   \<and> isDisabled (inputDisabled (dirInput (directoryInputOf Claude (DirectorySettings gateOffProps))))
   \<and> isDisabled (buttonDisabled (dirBrowseButton (directoryInputOf Claude (DirectorySettings gateOffProps))))
   \<and> isDisabled (buttonDisabled (dirResetButton (directoryInputOf Claude (DirectorySettings gateOffProps))))
   \<and> filter perAppCallback
        (dispatch (DirectorySettings gateOffProps) (EditDirectory Claude ''/custom/other'')) = []"
proof -
  have off: "\<not> enableConfigDirOverrides gateOffProps"
    by (simp add: gateOffProps_def)
  show ?thesis
    using off gate_off_no_per_app_callback [OF off, of Claude "EditDirectory Claude ''/custom/other''"]
    by simp
qed

text \<open>
  C10. An edit of a directory input invokes the change callback with the text of the
  input as a string: clearing the field hands over the empty string, and no user event
  at all makes the component invoke a change callback with the absent value. The reset
  button invokes the reset callback instead.
\<close>

theorem edit_passes_string_never_absent:
  "dispatch (DirectorySettings p) (EditAppConfig s) = [OnAppConfigChange (Some s)]
   \<and> dispatch (DirectorySettings p) (EditAppConfig []) = [OnAppConfigChange (Some [])]
   \<and> dispatch (DirectorySettings p) (EditDirectory app s) =
       (if enableConfigDirOverrides p then [OnDirectoryChange app (Some s)] else [])
   \<and> dispatch (DirectorySettings p) (EditDirectory app []) =
       (if enableConfigDirOverrides p then [OnDirectoryChange app (Some [])] else [])
   \<and> filter changeToAbsent (dispatch (DirectorySettings p) ev) = []
   \<and> dispatch (DirectorySettings p) (ClickResetDirectory app) =
       (if enableConfigDirOverrides p then [OnResetDirectory app] else [])
   \<and> dispatch (DirectorySettings p) ClickResetAppConfig = [OnResetAppConfig]"
proof -
  have "filter changeToAbsent (dispatch (DirectorySettings p) ev) = []"
    by (cases ev) (simp_all add: dispatch_DirectorySettings del: dispatch.simps)
  then show ?thesis
    by (simp add: dispatch_DirectorySettings del: dispatch.simps)
qed

end
